theory Spec2Isabelle
  imports Main "HOL-Library.Word"
begin

section \<open>The LIM timer utilities of the prima WLAN driver (limTimerUtils.c)\<close>

text \<open>
  A shallow embedding of \<^verbatim>\<open>drivers/staging/prima/CORE/MAC/src/pe/lim/limTimerUtils.c\<close>.

  The file is embedded as the station build compiles it (the product type of a handset
  kernel, \<^verbatim>\<open>ANI_PRODUCT_TYPE_CLIENT\<close>): the blocks under \<^verbatim>\<open>ANI_PRODUCT_TYPE_AP\<close>,
  \<^verbatim>\<open>ANI_PRODUCT_TYPE_AP_SDK\<close>, \<^verbatim>\<open>ANI_AP_SDK_OPT\<close>, \<^verbatim>\<open>ANI_OS_TYPE_RTAI_LINUX\<close> and
  \<^verbatim>\<open>#if 0\<close> are not part of it. The feature switches \<^verbatim>\<open>WLAN_SOFTAP_FEATURE\<close>,
  \<^verbatim>\<open>WLAN_FEATURE_VOWIFI_11R\<close> and \<^verbatim>\<open>WLAN_FEATURE_P2P\<close> are parameters.

  Everything the file calls but does not define (the time source \<^verbatim>\<open>tx_timer_*\<close>, the
  configuration store, the message queue, the allocator, the constants of the headers) is a
  field of the environment \<open>env\<close>: the theorems hold for every behaviour of these
  collaborators. The calls to the time source and to the allocator are recorded, in order, in
  the state, and so are the messages handed to the message queue.
  Diagnostics wrapped in the \<^verbatim>\<open>PELOG*\<close> and \<^verbatim>\<open>MTRACE\<close> macros are compiled in or out by
  the build and are not embedded; every unconditional \<^verbatim>\<open>limLog\<close> is.
\<close>

subsection \<open>Data\<close>

type_synonym tANI_U8 = "8 word"
type_synonym tANI_U16 = "16 word"
type_synonym tANI_U32 = "32 word"

datatype tLimSystemRole =
  eLIM_UNKNOWN_ROLE | eLIM_AP_ROLE | eLIM_STA_IN_IBSS_ROLE | eLIM_STA_ROLE
| eLIM_BT_AMP_STA_ROLE | eLIM_BT_AMP_AP_ROLE

datatype tLimQuietStates =
  eLIM_QUIET_INIT | eLIM_QUIET_BEGIN | eLIM_QUIET_CHANGED | eLIM_QUIET_RUNNING | eLIM_QUIET_END

datatype log_level = LOGP | LOGE

text \<open>The values of \<^verbatim>\<open>timerId\<close> that have a \<^verbatim>\<open>case\<close> in one of the two switches; every
  other value takes the \<^verbatim>\<open>default\<close> branch.\<close>

datatype lim_timer_id =
  eLIM_ADDTS_RSP_TIMER | eLIM_MIN_CHANNEL_TIMER | eLIM_MAX_CHANNEL_TIMER
| eLIM_JOIN_FAIL_TIMER | eLIM_AUTH_FAIL_TIMER | eLIM_ASSOC_FAIL_TIMER
| eLIM_REASSOC_FAIL_TIMER | eLIM_HEART_BEAT_TIMER | eLIM_PROBE_AFTER_HB_TIMER
| eLIM_KEEPALIVE_TIMER | eLIM_BACKGROUND_SCAN_TIMER | eLIM_CHANNEL_SWITCH_TIMER
| eLIM_LEARN_DURATION_TIMER | eLIM_QUIET_BSS_TIMER | eLIM_QUIET_TIMER
| eLIM_FT_PREAUTH_RSP_TIMER | eLIM_REMAIN_CHN_TIMER
| eLIM_CNF_WAIT_TIMER | eLIM_AUTH_RSP_TIMER
| eLIM_TIMER_WITHOUT_CASE

text \<open>The timer objects: the members of \<^verbatim>\<open>pMac->lim.limTimers\<close>, the slots of the array
  \<^verbatim>\<open>gpLimCnfWaitTimer\<close>, and the timer of a pre-auth node (named by the node).\<close>

datatype timer_ref =
  gLimMinChannelTimer | gLimMaxChannelTimer | gLimChannelSwitchTimer | gLimQuietTimer
| gLimQuietBssTimer | gLimJoinFailureTimer | gLimAssocFailureTimer | gLimReassocFailureTimer
| gLimAddtsRspTimer | gLimAuthFailureTimer | gLimHeartBeatTimer | gLimProbeAfterHBTimer
| gLimBackgroundScanTimer | gLimSendDisassocFrameThresholdTimer | gLimKeepaliveTimer
| gLimUpdateOlbcCacheTimer | gLimFTPreAuthRspTimer | gLimRemainOnChannelTimer
| gpLimCnfWaitTimer nat
| pAuthNode_timer nat

datatype expiry_fn =
  limTimerHandler_fn | limChannelSwitchTimerHandler_fn | limQuietTimerHandler_fn
| limQuietBssTimerHandler_fn | limAssocFailureTimerHandler_fn | limAddtsResponseTimerHandler_fn
| limSendDisassocFrameThresholdHandler_fn | limKeepaliveTmerHandler_fn
| limCnfWaitTmerHandler_fn | limUpdateOlbcCacheTimerHandler_fn

datatype sir_lim_msg =
  SIR_LIM_MIN_CHANNEL_TIMEOUT | SIR_LIM_MAX_CHANNEL_TIMEOUT | SIR_LIM_QUIET_TIMEOUT
| SIR_LIM_QUIET_BSS_TIMEOUT | SIR_LIM_JOIN_FAIL_TIMEOUT | SIR_LIM_ADDTS_RSP_TIMEOUT
| SIR_LIM_AUTH_FAIL_TIMEOUT | SIR_LIM_HEART_BEAT_TIMEOUT | SIR_LIM_PROBE_HB_FAILURE_TIMEOUT
| SIR_LIM_CHANNEL_SCAN_TIMEOUT | SIR_LIM_HASH_MISS_THRES_TIMEOUT
| SIR_LIM_UPDATE_OLBC_CACHEL_TIMEOUT | SIR_LIM_FT_PREAUTH_RSP_TIMEOUT
| SIR_LIM_REMAIN_CHN_TIMEOUT | SIR_LIM_AUTH_RSP_TIMEOUT | SIR_LIM_ASSOC_FAIL_TIMEOUT
| SIR_LIM_CNF_WAIT_TIMEOUT | SIR_LIM_KEEPALIVE_TIMEOUT | SIR_LIM_CHANNEL_SWITCH_TIMEOUT

datatype cfg_key =
  WNI_CFG_ACTIVE_MINIMUM_CHANNEL_TIME | WNI_CFG_ACTIVE_MAXIMUM_CHANNEL_TIME
| WNI_CFG_JOIN_FAILURE_TIMEOUT | WNI_CFG_ASSOCIATION_FAILURE_TIMEOUT
| WNI_CFG_REASSOCIATION_FAILURE_TIMEOUT | WNI_CFG_ADDTS_RSP_TIMEOUT
| WNI_CFG_AUTHENTICATE_FAILURE_TIMEOUT | WNI_CFG_BEACON_INTERVAL
| WNI_CFG_PROBE_AFTER_HB_FAIL_TIMEOUT | WNI_CFG_BACKGROUND_SCAN_PERIOD
| WNI_CFG_KEEPALIVE_TIMEOUT | WNI_CFG_WT_CNF_TIMEOUT | WNI_CFG_MAX_NUM_PRE_AUTH
| WNI_CFG_OLBC_DETECT_TIMEOUT | WNI_CFG_HEART_BEAT_THRESHOLD
| WNI_CFG_AUTHENTICATE_RSP_TIMEOUT

text \<open>\<^verbatim>\<open>TX_TIMER\<close>: the members this file reads or writes (\<^verbatim>\<open>tmrSignature\<close>,
  \<^verbatim>\<open>initScheduleTimeInMsecs\<close>, \<^verbatim>\<open>sessionId\<close>), and the reload time and the
  Inactive/Active state that the time source keeps in it.\<close>

record tx_timer =
  tmrSignature :: tANI_U32
  initScheduleTimeInMsecs :: tANI_U32
  rescheduleTimeInMsecs :: tANI_U32
  sessionId :: tANI_U8
  tmrActive :: bool

record tSirMsgQ =
  msgType :: tANI_U16
  bodyptr :: "nat option"
  bodyval :: tANI_U32

record tLimMlmScanReq =
  minChannelTime :: tANI_U32
  maxChannelTime :: tANI_U32

record tLimSpecMgmtInfo =
  quietState :: tLimQuietStates
  quietDuration :: tANI_U32
  quietTimeoutValue :: tANI_U32

record tPESession =
  peSessionId :: tANI_U8
  beaconInterval :: tANI_U16

record tLimPreAuthTimerTable =
  numEntry :: tANI_U32
  pTable :: "nat option"

text \<open>The calls that leave the file, as recorded in the state.\<close>

datatype ext_call =
  TxCreate timer_ref expiry_fn tANI_U32 tANI_U32 tANI_U32 bool
| TxActivate timer_ref
| TxDeactivate timer_ref
| TxChange timer_ref tANI_U32 tANI_U32
| PalAllocateMemory tANI_U32
| LimInitPreAuthTimerTable
| LimResetHBPktCount

text \<open>The part of \<^verbatim>\<open>pMac\<close> the file touches. The array \<^verbatim>\<open>gpLimCnfWaitTimer\<close> has
  \<^verbatim>\<open>maxStation\<close> slots: \<open>gpLimCnfWaitTimer i\<close> names an object only for
  \<open>i < unat maxStation\<close>.\<close>

record lim_state =
  gLimSystemRole :: tLimSystemRole
  limTimers :: "timer_ref \<Rightarrow> tx_timer"
  maxStation :: tANI_U16
  gLimPreAuthTimerTable :: tLimPreAuthTimerTable
  gLimBackgroundScanDisable :: bool
  keepAlive :: tANI_U8
  gLimTimersCreated :: tANI_U32
  gLimAddtsRspTimerCount :: tANI_U32
  gLimSpecMgmt :: tLimSpecMgmtInfo
  gLimTriggerBackgroundScanDuringQuietBss :: bool
  gpLimMlmScanReq :: "tLimMlmScanReq option"
  switchTimeoutValue :: tANI_U32
  limLogs :: "(log_level \<times> string) list"
  extCalls :: "ext_call list"
  postedMsgs :: "tSirMsgQ list"

text \<open>The collaborators and the constants of the headers. \<^verbatim>\<open>wlan_cfgGetInt\<close> is
  \<open>None\<close> where the lookup fails (the output variable is then left as it was);
  \<open>indeterminate\<close> is what an uninitialised local holds; \<^verbatim>\<open>palAllocateMemory\<close> gets the
  pointer variable and the size and gives whether it succeeded and what the pointer then is (a
  pointer is \<open>None\<close> when it is \<^verbatim>\<open>NULL\<close>); \<^verbatim>\<open>limGetPreAuthNodeFromIndex\<close> gives the
  node of an index, or \<open>None\<close> for \<^verbatim>\<open>NULL\<close>; \<^verbatim>\<open>limPostMsgApi\<close> gets the messages
  posted so far and the message, and gives its status.\<close>

record env =
  WLAN_SOFTAP_FEATURE :: bool
  WLAN_FEATURE_VOWIFI_11R :: bool
  WLAN_FEATURE_P2P :: bool
  SYS_TICK_DUR_MS :: tANI_U32
  TX_SUCCESS :: tANI_U32
  TX_TIMER_ERROR :: tANI_U32
  TX_AIRGO_TMR_SIGNATURE :: tANI_U32
  eSIR_SUCCESS :: tANI_U32
  LIM_HASH_MISS_TIMER_MS :: tANI_U32
  LIM_ASSOC :: tANI_U32
  LIM_REASSOC :: tANI_U32
  sizeof_tLimPreAuthNode :: tANI_U32
  SIR_LIM :: "sir_lim_msg \<Rightarrow> tANI_U32"
  indeterminate :: tANI_U32
  wlan_cfgGetInt :: "cfg_key \<Rightarrow> tANI_U32 option"
  tx_timer_create :: "timer_ref \<Rightarrow> tx_timer \<Rightarrow> expiry_fn \<Rightarrow> tANI_U32 \<Rightarrow> tANI_U32 \<Rightarrow> tANI_U32
                        \<Rightarrow> bool \<Rightarrow> tANI_U32 \<times> tx_timer"
  tx_timer_activate :: "timer_ref \<Rightarrow> tx_timer \<Rightarrow> tANI_U32 \<times> tx_timer"
  tx_timer_deactivate :: "timer_ref \<Rightarrow> tx_timer \<Rightarrow> tANI_U32 \<times> tx_timer"
  tx_timer_change :: "timer_ref \<Rightarrow> tx_timer \<Rightarrow> tANI_U32 \<Rightarrow> tANI_U32 \<Rightarrow> tANI_U32 \<times> tx_timer"
  limPostMsgApi :: "tSirMsgQ list \<Rightarrow> tSirMsgQ \<Rightarrow> tANI_U32"
  palAllocateMemory :: "nat option \<Rightarrow> tANI_U32 \<Rightarrow> bool \<times> nat option"
  limGetPreAuthNodeFromIndex :: "tLimPreAuthTimerTable \<Rightarrow> tANI_U32 \<Rightarrow> nat option"

subsection \<open>Macros and wrappers of the external calls\<close>

definition LIM_BACKGROUND_SCAN_PERIOD_DEFAULT_MS :: tANI_U32 where
  "LIM_BACKGROUND_SCAN_PERIOD_DEFAULT_MS = 5000"





text \<open>Modelled from the spec: the macro \<^verbatim>\<open>SYS_MS_TO_TICKS\<close> of a header that is not among
  the sources. The spec: milliseconds are converted to ticks via the system tick duration, and
  callers that need a ceiling add \<^verbatim>\<open>tick_duration_ms - 1\<close> before the conversion; so the
  conversion is the truncating division by \<^verbatim>\<open>SYS_TICK_DUR_MS\<close>.\<close>

definition SYS_MS_TO_TICKS :: "env \<Rightarrow> tANI_U32 \<Rightarrow> tANI_U32" where
  "SYS_MS_TO_TICKS e x = x div SYS_TICK_DUR_MS e"

text \<open>\<^verbatim>\<open>limLog\<close> is defined in another file. It is taken to record the entry and to return,
  as the statements that follow each of its calls presume. The format arguments of a message
  are left out.\<close>

definition limLog :: "log_level \<Rightarrow> string \<Rightarrow> lim_state \<Rightarrow> lim_state" where
  "limLog lvl msg st = st\<lparr>limLogs := limLogs st @ [(lvl, msg)]\<rparr>"


definition call_activate :: "env \<Rightarrow> timer_ref \<Rightarrow> lim_state \<Rightarrow> tANI_U32 \<times> lim_state" where
  "call_activate e r st =
     (let res = tx_timer_activate e r (limTimers st r)
      in (fst res, st\<lparr>limTimers := (limTimers st)(r := snd res),
                      extCalls := extCalls st @ [TxActivate r]\<rparr>))"

definition call_deactivate :: "env \<Rightarrow> timer_ref \<Rightarrow> lim_state \<Rightarrow> tANI_U32 \<times> lim_state" where
  "call_deactivate e r st =
     (let res = tx_timer_deactivate e r (limTimers st r)
      in (fst res, st\<lparr>limTimers := (limTimers st)(r := snd res),
                      extCalls := extCalls st @ [TxDeactivate r]\<rparr>))"

definition call_change ::
  "env \<Rightarrow> timer_ref \<Rightarrow> tANI_U32 \<Rightarrow> tANI_U32 \<Rightarrow> lim_state \<Rightarrow> tANI_U32 \<times> lim_state" where
  "call_change e r i rs st =
     (let res = tx_timer_change e r (limTimers st r) i rs
      in (fst res, st\<lparr>limTimers := (limTimers st)(r := snd res),
                      extCalls := extCalls st @ [TxChange r i rs]\<rparr>))"

text \<open>The recurring statements
  \<^verbatim>\<open>if (tx_timer_deactivate(&t) != TX_SUCCESS) limLog(...)\<close>,
  \<^verbatim>\<open>if (tx_timer_change(&t, i, rs) != TX_SUCCESS) limLog(...)\<close> and
  \<^verbatim>\<open>if (wlan_cfgGetInt(pMac, key, &val) != eSIR_SUCCESS) limLog(...)\<close>.\<close>

definition deactivate_or_log ::
  "env \<Rightarrow> timer_ref \<Rightarrow> log_level \<Rightarrow> string \<Rightarrow> lim_state \<Rightarrow> lim_state" where
  "deactivate_or_log e r lvl msg st =
     (case call_deactivate e r st of
        (rc, st1) \<Rightarrow> if rc \<noteq> TX_SUCCESS e then limLog lvl msg st1 else st1)"

definition change_or_log ::
  "env \<Rightarrow> timer_ref \<Rightarrow> tANI_U32 \<Rightarrow> tANI_U32 \<Rightarrow> log_level \<Rightarrow> string \<Rightarrow> lim_state \<Rightarrow> lim_state" where
  "change_or_log e r i rs lvl msg st =
     (case call_change e r i rs st of
        (rc, st1) \<Rightarrow> if rc \<noteq> TX_SUCCESS e then limLog lvl msg st1 else st1)"

definition cfg_or_log ::
  "env \<Rightarrow> cfg_key \<Rightarrow> log_level \<Rightarrow> string \<Rightarrow> tANI_U32 \<Rightarrow> lim_state \<Rightarrow> tANI_U32 \<times> lim_state" where
  "cfg_or_log e key lvl msg val st =
     (case wlan_cfgGetInt e key of
        Some v \<Rightarrow> (v, st)
      | None \<Rightarrow> (val, limLog lvl msg st))"

subsection \<open>limDeactivateAndChangeTimer\<close>

text \<open>The block shared by the join, auth, assoc, reassoc and probe-after-heartbeat cases:
  deactivate, read the timeout from the configuration into \<^verbatim>\<open>val\<close> (initialised to 0),
  convert it to ticks, change the timer to it with no reload.\<close>

definition deactivate_and_change_from_cfg ::
  "env \<Rightarrow> timer_ref \<Rightarrow> cfg_key \<Rightarrow> string \<Rightarrow> string \<Rightarrow> string \<Rightarrow> lim_state \<Rightarrow> lim_state" where
  "deactivate_and_change_from_cfg e r key msg_deact msg_cfg msg_change st =
     (let st1 = deactivate_or_log e r LOGP msg_deact st;
          (val, st2) = cfg_or_log e key LOGP msg_cfg 0 st1
      in change_or_log e r (SYS_MS_TO_TICKS e val) 0 LOGP msg_change st2)"

fun limDeactivateAndChangeTimer :: "env \<Rightarrow> lim_timer_id \<Rightarrow> lim_state \<Rightarrow> lim_state" where
  "limDeactivateAndChangeTimer e eLIM_ADDTS_RSP_TIMER st =
     deactivate_or_log e gLimAddtsRspTimer LOGP ''Unable to deactivate AddtsRsp timer''
       (st\<lparr>gLimAddtsRspTimerCount := gLimAddtsRspTimerCount st + 1\<rparr>)"
| "limDeactivateAndChangeTimer e eLIM_MIN_CHANNEL_TIMER st =
     (let st1 = deactivate_or_log e gLimMinChannelTimer LOGP
                  ''Unable to deactivate min channel timer'' st
      in if quietState (gLimSpecMgmt st1) = eLIM_QUIET_RUNNING
            \<and> gLimTriggerBackgroundScanDuringQuietBss st1
         then change_or_log e gLimMinChannelTimer (quietDuration (gLimSpecMgmt st1)) 0 LOGP
                ''Unable to change min channel timer'' st1
         else (case gpLimMlmScanReq st1 of
                 Some req \<Rightarrow>
                   change_or_log e gLimMinChannelTimer (SYS_MS_TO_TICKS e (minChannelTime req)) 0
                     LOGP ''Unable to change min channel timer'' st1
               | None \<Rightarrow> limLog LOGE '' gpLimMlmScanReq is NULL '' st1))"
| "limDeactivateAndChangeTimer e eLIM_MAX_CHANNEL_TIMER st =
     (let st1 = deactivate_or_log e gLimMaxChannelTimer LOGP
                  ''Unable to deactivate max channel timer'' st
      in if gLimSystemRole st1 \<noteq> eLIM_AP_ROLE
         then (if quietState (gLimSpecMgmt st1) = eLIM_QUIET_RUNNING
                  \<and> gLimTriggerBackgroundScanDuringQuietBss st1
               then change_or_log e gLimMaxChannelTimer (quietDuration (gLimSpecMgmt st1)) 0 LOGP
                      ''Unable to change max channel timer'' st1
               else (case gpLimMlmScanReq st1 of
                       Some req \<Rightarrow>
                         change_or_log e gLimMaxChannelTimer
                           (SYS_MS_TO_TICKS e (maxChannelTime req)) 0
                           LOGP ''Unable to change max channel timer'' st1
                     | None \<Rightarrow> limLog LOGE '' gpLimMlmScanReq is NULL '' st1))
         else change_or_log e gLimMaxChannelTimer 0 0 LOGP
                ''Unable to change max channel timer'' st1)"
| "limDeactivateAndChangeTimer e eLIM_JOIN_FAIL_TIMER st =
     deactivate_and_change_from_cfg e gLimJoinFailureTimer WNI_CFG_JOIN_FAILURE_TIMEOUT
       ''Unable to deactivate Join Failure timer''
       ''could not retrieve JoinFailureTimeout value''
       ''Unable to change Join Failure timer'' st"
| "limDeactivateAndChangeTimer e eLIM_AUTH_FAIL_TIMER st =
     deactivate_and_change_from_cfg e gLimAuthFailureTimer WNI_CFG_AUTHENTICATE_FAILURE_TIMEOUT
       ''Unable to deactivate auth failure timer''
       ''could not retrieve AuthFailureTimeout value''
       ''unable to change Auth failure timer'' st"
| "limDeactivateAndChangeTimer e eLIM_ASSOC_FAIL_TIMER st =
     deactivate_and_change_from_cfg e gLimAssocFailureTimer WNI_CFG_ASSOCIATION_FAILURE_TIMEOUT
       ''unable to deactivate Association failure timer''
       ''could not retrieve AssocFailureTimeout value''
       ''unable to change Assoc failure timer'' st"
| "limDeactivateAndChangeTimer e eLIM_REASSOC_FAIL_TIMER st =
     deactivate_and_change_from_cfg e gLimReassocFailureTimer
       WNI_CFG_REASSOCIATION_FAILURE_TIMEOUT
       ''unable to deactivate Reassoc failure timer''
       ''could not retrieve ReassocFailureTimeout value''
       ''unable to change Reassociation failure timer'' st"
| "limDeactivateAndChangeTimer e eLIM_HEART_BEAT_TIMER st =
     (let st1 = deactivate_or_log e gLimHeartBeatTimer LOGP
                  ''unable to deactivate Heartbeat timer'' st;
          (val, st2) = cfg_or_log e WNI_CFG_BEACON_INTERVAL LOGP
                         ''could not retrieve BEACON_INTERVAL value'' 0 st1;
          (val1, st3) = cfg_or_log e WNI_CFG_HEART_BEAT_THRESHOLD LOGP
                          ''could not retrieve heartbeat failure value'' 0 st2
      in change_or_log e gLimHeartBeatTimer (SYS_MS_TO_TICKS e (val * val1)) 0 LOGP
           ''unable to change HeartBeat timer'' st3)"
| "limDeactivateAndChangeTimer e eLIM_PROBE_AFTER_HB_TIMER st =
     deactivate_and_change_from_cfg e gLimProbeAfterHBTimer WNI_CFG_PROBE_AFTER_HB_FAIL_TIMEOUT
       ''unable to deactivate probeAfterHBTimer''
       ''could not retrieve PROBE_AFTER_HB_FAIL_TIMEOUT value''
       ''unable to change ProbeAfterHBTimer'' st"
| "limDeactivateAndChangeTimer e eLIM_KEEPALIVE_TIMER st =
     (let st1 = deactivate_or_log e gLimKeepaliveTimer LOGP
                  ''unable to deactivate KeepaliveTimer timer'' st;
          (val, st2) = cfg_or_log e WNI_CFG_KEEPALIVE_TIMEOUT LOGP
                         ''could not retrieve keepalive timeout value'' 0 st1;
          (val, st3) = (if val = 0 then (3000, st2\<lparr>keepAlive := 0\<rparr>)
                        else (val, st2\<lparr>keepAlive := 1\<rparr>));
          val = SYS_MS_TO_TICKS e (val + SYS_TICK_DUR_MS e - 1)
      in change_or_log e gLimKeepaliveTimer val val LOGP
           ''unable to change KeepaliveTimer timer'' st3)"
| "limDeactivateAndChangeTimer e eLIM_BACKGROUND_SCAN_TIMER st =
     (let st1 = deactivate_or_log e gLimBackgroundScanTimer LOGP
                  ''unable to deactivate BackgroundScanTimer timer'' st;
          (val, st2) = cfg_or_log e WNI_CFG_BACKGROUND_SCAN_PERIOD LOGP
                         ''could not retrieve Background scan period value'' 0 st1;
          (val, st3) = (if val = 0
                        then (LIM_BACKGROUND_SCAN_PERIOD_DEFAULT_MS,
                              st2\<lparr>gLimBackgroundScanDisable := True\<rparr>)
                        else (val, st2\<lparr>gLimBackgroundScanDisable := False\<rparr>));
          val = SYS_MS_TO_TICKS e val
      in change_or_log e gLimBackgroundScanTimer val val LOGP
           ''unable to change BackgroundScanTimer timer'' st3)"
| "limDeactivateAndChangeTimer e eLIM_CHANNEL_SWITCH_TIMER st =
     (case call_deactivate e gLimChannelSwitchTimer st of
        (rc, st1) \<Rightarrow>
          if rc \<noteq> eSIR_SUCCESS e then limLog LOGP ''tx_timer_deactivate failed!'' st1
          else change_or_log e gLimChannelSwitchTimer (switchTimeoutValue st1) 0 LOGP
                 ''tx_timer_change failed '' st1)"
| "limDeactivateAndChangeTimer e eLIM_LEARN_DURATION_TIMER st = st"
| "limDeactivateAndChangeTimer e eLIM_QUIET_BSS_TIMER st =
     (let st1 = deactivate_or_log e gLimQuietBssTimer LOGE
                  ''Unable to de-activate gLimQuietBssTimer! Will attempt to activate anyway...''
                  st
      in change_or_log e gLimQuietBssTimer (quietDuration (gLimSpecMgmt st1)) 0 LOGE
           ''Unable to change gLimQuietBssTimer! Will still attempt to activate anyway...'' st1)"
| "limDeactivateAndChangeTimer e eLIM_QUIET_TIMER st =
     (let st1 = deactivate_or_log e gLimQuietTimer LOGE
                  ''Unable to deactivate gLimQuietTimer! Will still attempt to re-activate anyway...''
                  st
      in change_or_log e gLimQuietTimer
           (SYS_MS_TO_TICKS e (quietTimeoutValue (gLimSpecMgmt st1))) 0 LOGE
           ''Unable to change gLimQuietTimer! Will still attempt to re-activate anyway...'' st1)"
| "limDeactivateAndChangeTimer e eLIM_FT_PREAUTH_RSP_TIMER st =
     (if WLAN_FEATURE_VOWIFI_11R e
      then (let st1 = deactivate_or_log e gLimFTPreAuthRspTimer LOGP
                        ''Unable to deactivate Preauth response Failure timer'' st
            in change_or_log e gLimFTPreAuthRspTimer (SYS_MS_TO_TICKS e 1000) 0 LOGP
                 ''Unable to change Join Failure timer'' st1)
      else st)"
| "limDeactivateAndChangeTimer e eLIM_REMAIN_CHN_TIMER st =
     (if WLAN_FEATURE_P2P e
      then (let st1 = deactivate_or_log e gLimRemainOnChannelTimer LOGP
                        ''Unable to deactivate Remain on Chn timer'' st
            in change_or_log e gLimRemainOnChannelTimer (SYS_MS_TO_TICKS e 1000) 0 LOGP
                 ''Unable to change timer'' st1)
      else st)"
| "limDeactivateAndChangeTimer e eLIM_CNF_WAIT_TIMER st = st"
| "limDeactivateAndChangeTimer e eLIM_AUTH_RSP_TIMER st = st"
| "limDeactivateAndChangeTimer e eLIM_TIMER_WITHOUT_CASE st = st"

declare limDeactivateAndChangeTimer.simps [simp del]

subsection \<open>The heartbeat timer\<close>

definition limHeartBeatDeactivateAndChangeTimer ::
  "env \<Rightarrow> tPESession \<Rightarrow> lim_state \<Rightarrow> lim_state" where
  "limHeartBeatDeactivateAndChangeTimer e psessionEntry st =
     (let st1 = deactivate_or_log e gLimHeartBeatTimer LOGP
                  ''Fail to deactivate HeartBeatTimer '' st;
          val = ucast (beaconInterval psessionEntry);
          (val1, st2) = cfg_or_log e WNI_CFG_HEART_BEAT_THRESHOLD LOGP
                          ''Fail to get WNI_CFG_HEART_BEAT_THRESHOLD '' (indeterminate e) st1
      in change_or_log e gLimHeartBeatTimer (SYS_MS_TO_TICKS e (val * val1)) 0 LOGP
           ''Fail to change HeartBeatTimer'' st2)"

definition limReactivateHeartBeatTimer :: "env \<Rightarrow> tPESession \<Rightarrow> lim_state \<Rightarrow> lim_state" where
  "limReactivateHeartBeatTimer e psessionEntry st =
     (let st1 = limHeartBeatDeactivateAndChangeTimer e psessionEntry st
      in if initScheduleTimeInMsecs (limTimers st1 gLimHeartBeatTimer) > 0
         then (case call_activate e gLimHeartBeatTimer st1 of
                 (rc, st2) \<Rightarrow>
                   (let st3 = (if rc \<noteq> TX_SUCCESS e
                               then limLog LOGP ''could not activate Heartbeat timer'' st2
                               else st2)
                    in st3\<lparr>extCalls := extCalls st3 @ [LimResetHBPktCount]\<rparr>))
         else st1)"

definition limActivateHearBeatTimer :: "env \<Rightarrow> lim_state \<Rightarrow> tANI_U32 \<times> lim_state" where
  "limActivateHearBeatTimer e st =
     (if TX_AIRGO_TMR_SIGNATURE e = tmrSignature (limTimers st gLimHeartBeatTimer)
      then (if initScheduleTimeInMsecs (limTimers st gLimHeartBeatTimer) \<noteq> 0
            then call_activate e gLimHeartBeatTimer st
            else (TX_SUCCESS e, st))
      else (TX_TIMER_ERROR e, st))"

subsection \<open>The per-station timers\<close>

text \<open>\<^verbatim>\<open>gpLimCnfWaitTimer[staId]\<close> is indexed as it comes: with \<^verbatim>\<open>staId\<close> outside the array
  the access is outside the object, which the model returns as a fault.\<close>

datatype fault = OutOfBoundsAccess

definition limDeactivateAndChangePerStaIdTimer ::
  "env \<Rightarrow> lim_timer_id \<Rightarrow> tANI_U16 \<Rightarrow> lim_state \<Rightarrow> fault + lim_state" where
  "limDeactivateAndChangePerStaIdTimer e timerId staId st =
     (if timerId = eLIM_CNF_WAIT_TIMER then
        (if unat staId < unat (maxStation st)
         then (let st1 = deactivate_or_log e (gpLimCnfWaitTimer (unat staId)) LOGP
                           ''unable to deactivate CNF wait timer'' st;
                   (val, st2) = cfg_or_log e WNI_CFG_WT_CNF_TIMEOUT LOGP
                                  ''could not retrieve cnf timeout value'' (indeterminate e) st1;
                   val = SYS_MS_TO_TICKS e val
               in Inr (change_or_log e (gpLimCnfWaitTimer (unat staId)) val val LOGP
                         ''unable to change cnf wait timer'' st2))
         else Inl OutOfBoundsAccess)
      else if timerId = eLIM_AUTH_RSP_TIMER then
        (case limGetPreAuthNodeFromIndex e (gLimPreAuthTimerTable st) (ucast staId) of
           None \<Rightarrow> Inr (limLog LOGP ''Invalid Pre Auth Index passed'' st)
         | Some pAuthNode \<Rightarrow>
             (let st1 = deactivate_or_log e (pAuthNode_timer pAuthNode) LOGP
                          ''unable to deactivate auth response timer'' st;
                  (val, st2) = cfg_or_log e WNI_CFG_AUTHENTICATE_RSP_TIMEOUT LOGP
                                 ''could not retrieve auth response timeout value''
                                 (indeterminate e) st1;
                  val = SYS_MS_TO_TICKS e val
              in Inr (change_or_log e (pAuthNode_timer pAuthNode) val 0 LOGP
                        ''unable to change auth rsp timer'' st2)))
      else Inr st)"


definition limActivateAuthRspTimer :: "env \<Rightarrow> nat \<Rightarrow> lim_state \<Rightarrow> lim_state" where
  "limActivateAuthRspTimer e pAuthNode st =
     (case call_activate e (pAuthNode_timer pAuthNode) st of
        (rc, st1) \<Rightarrow>
          if rc \<noteq> TX_SUCCESS e then limLog LOGP ''could not activate auth rsp timer'' st1
          else st1)"

subsection \<open>The expiry handlers\<close>













subsection \<open>limCreateTimers\<close>































subsection \<open>Collaborators for the concrete instances\<close>

text \<open>Modelled from the spec: the time source, whose code is not among the sources. The spec
  gives it \<^verbatim>\<open>create(duration, reload, auto_activate)\<close>, \<^verbatim>\<open>activate\<close>, \<^verbatim>\<open>deactivate\<close>
  and \<^verbatim>\<open>change\<close> on a timer that has a scheduled duration, a repeat interval and a state
  Inactive or Active. This one never fails; the times are kept in milliseconds.\<close>

definition ref_create ::
  "tANI_U32 \<Rightarrow> timer_ref \<Rightarrow> tx_timer \<Rightarrow> expiry_fn \<Rightarrow> tANI_U32 \<Rightarrow> tANI_U32 \<Rightarrow> tANI_U32 \<Rightarrow> bool
     \<Rightarrow> tANI_U32 \<times> tx_timer" where
  "ref_create tick r t h p i rs a =
     (0, \<lparr>tmrSignature = 0xDEADBEEF, initScheduleTimeInMsecs = i * tick,
          rescheduleTimeInMsecs = rs * tick, sessionId = sessionId t, tmrActive = a\<rparr>)"

definition ref_activate :: "timer_ref \<Rightarrow> tx_timer \<Rightarrow> tANI_U32 \<times> tx_timer" where
  "ref_activate r t = (0, t\<lparr>tmrActive := True\<rparr>)"

definition ref_deactivate :: "timer_ref \<Rightarrow> tx_timer \<Rightarrow> tANI_U32 \<times> tx_timer" where
  "ref_deactivate r t = (0, t\<lparr>tmrActive := False\<rparr>)"

definition ref_change ::
  "tANI_U32 \<Rightarrow> timer_ref \<Rightarrow> tx_timer \<Rightarrow> tANI_U32 \<Rightarrow> tANI_U32 \<Rightarrow> tANI_U32 \<times> tx_timer" where
  "ref_change tick r t i rs =
     (0, t\<lparr>initScheduleTimeInMsecs := i * tick, rescheduleTimeInMsecs := rs * tick\<rparr>)"

text \<open>Modelled from the spec: \<^verbatim>\<open>limGetPreAuthNodeFromIndex\<close>, which is defined in another
  file of the driver. The spec: the pool lookup is bounds-checked, and an index at or beyond
  the capacity is reported as invalid, never clamped.\<close>

definition limGetPreAuthNodeFromIndex_spec ::
  "tLimPreAuthTimerTable \<Rightarrow> tANI_U32 \<Rightarrow> nat option" where
  "limGetPreAuthNodeFromIndex_spec tbl authNodeIdx =
     (if unat authNodeIdx < unat (numEntry tbl) then Some (unat authNodeIdx) else None)"

text \<open>A configuration, message numbers, an environment and a state to run the functions
  on.\<close>

fun cfg0 :: "cfg_key \<Rightarrow> tANI_U32 option" where
  "cfg0 WNI_CFG_ACTIVE_MINIMUM_CHANNEL_TIME = Some 20"
| "cfg0 WNI_CFG_ACTIVE_MAXIMUM_CHANNEL_TIME = Some 40"
| "cfg0 WNI_CFG_JOIN_FAILURE_TIMEOUT = Some 3000"
| "cfg0 WNI_CFG_ASSOCIATION_FAILURE_TIMEOUT = Some 2000"
| "cfg0 WNI_CFG_REASSOCIATION_FAILURE_TIMEOUT = Some 2000"
| "cfg0 WNI_CFG_ADDTS_RSP_TIMEOUT = Some 1000"
| "cfg0 WNI_CFG_AUTHENTICATE_FAILURE_TIMEOUT = Some 1000"
| "cfg0 WNI_CFG_BEACON_INTERVAL = Some 100"
| "cfg0 WNI_CFG_PROBE_AFTER_HB_FAIL_TIMEOUT = Some 70"
| "cfg0 WNI_CFG_BACKGROUND_SCAN_PERIOD = Some 0"
| "cfg0 WNI_CFG_KEEPALIVE_TIMEOUT = Some 0"
| "cfg0 WNI_CFG_WT_CNF_TIMEOUT = Some 500"
| "cfg0 WNI_CFG_MAX_NUM_PRE_AUTH = Some 2"
| "cfg0 WNI_CFG_OLBC_DETECT_TIMEOUT = Some 10000"
| "cfg0 WNI_CFG_HEART_BEAT_THRESHOLD = Some 40"
| "cfg0 WNI_CFG_AUTHENTICATE_RSP_TIMEOUT = Some 1000"

fun sir_lim0 :: "sir_lim_msg \<Rightarrow> tANI_U32" where
  "sir_lim0 SIR_LIM_MIN_CHANNEL_TIMEOUT = 0x1401"
| "sir_lim0 SIR_LIM_MAX_CHANNEL_TIMEOUT = 0x1402"
| "sir_lim0 SIR_LIM_QUIET_TIMEOUT = 0x1403"
| "sir_lim0 SIR_LIM_QUIET_BSS_TIMEOUT = 0x1404"
| "sir_lim0 SIR_LIM_JOIN_FAIL_TIMEOUT = 0x1405"
| "sir_lim0 SIR_LIM_ADDTS_RSP_TIMEOUT = 0x1406"
| "sir_lim0 SIR_LIM_AUTH_FAIL_TIMEOUT = 0x1407"
| "sir_lim0 SIR_LIM_HEART_BEAT_TIMEOUT = 0x1408"
| "sir_lim0 SIR_LIM_PROBE_HB_FAILURE_TIMEOUT = 0x1409"
| "sir_lim0 SIR_LIM_CHANNEL_SCAN_TIMEOUT = 0x140A"
| "sir_lim0 SIR_LIM_HASH_MISS_THRES_TIMEOUT = 0x140B"
| "sir_lim0 SIR_LIM_UPDATE_OLBC_CACHEL_TIMEOUT = 0x140C"
| "sir_lim0 SIR_LIM_FT_PREAUTH_RSP_TIMEOUT = 0x140D"
| "sir_lim0 SIR_LIM_REMAIN_CHN_TIMEOUT = 0x140E"
| "sir_lim0 SIR_LIM_AUTH_RSP_TIMEOUT = 0x140F"
| "sir_lim0 SIR_LIM_ASSOC_FAIL_TIMEOUT = 0x1410"
| "sir_lim0 SIR_LIM_CNF_WAIT_TIMEOUT = 0x1411"
| "sir_lim0 SIR_LIM_KEEPALIVE_TIMEOUT = 0x1412"
| "sir_lim0 SIR_LIM_CHANNEL_SWITCH_TIMEOUT = 0x1413"

definition env0 :: env where
  "env0 =
     \<lparr>WLAN_SOFTAP_FEATURE = True, WLAN_FEATURE_VOWIFI_11R = True, WLAN_FEATURE_P2P = True,
      SYS_TICK_DUR_MS = 10, TX_SUCCESS = 0, TX_TIMER_ERROR = 0x15,
      TX_AIRGO_TMR_SIGNATURE = 0xDEADBEEF, eSIR_SUCCESS = 0, LIM_HASH_MISS_TIMER_MS = 10000,
      LIM_ASSOC = 1, LIM_REASSOC = 2, sizeof_tLimPreAuthNode = 64, SIR_LIM = sir_lim0,
      indeterminate = 0xA5A5A5A5, wlan_cfgGetInt = cfg0,
      tx_timer_create = ref_create 10, tx_timer_activate = ref_activate,
      tx_timer_deactivate = ref_deactivate, tx_timer_change = ref_change 10,
      limPostMsgApi = (\<lambda>posted msg. 0), palAllocateMemory = (\<lambda>p size. (True, Some 0)),
      limGetPreAuthNodeFromIndex = limGetPreAuthNodeFromIndex_spec\<rparr>"

definition timer0 :: tx_timer where
  "timer0 = \<lparr>tmrSignature = 0, initScheduleTimeInMsecs = 0, rescheduleTimeInMsecs = 0,
             sessionId = 0, tmrActive = False\<rparr>"

definition st0 :: lim_state where
  "st0 =
     \<lparr>gLimSystemRole = eLIM_STA_ROLE, limTimers = (\<lambda>r. timer0), maxStation = 4,
      gLimPreAuthTimerTable = \<lparr>numEntry = 0, pTable = None\<rparr>,
      gLimBackgroundScanDisable = False, keepAlive = 0, gLimTimersCreated = 0,
      gLimAddtsRspTimerCount = 0,
      gLimSpecMgmt = \<lparr>quietState = eLIM_QUIET_INIT, quietDuration = 0, quietTimeoutValue = 0\<rparr>,
      gLimTriggerBackgroundScanDuringQuietBss = False, gpLimMlmScanReq = None,
      switchTimeoutValue = 0, limLogs = [], extCalls = [], postedMsgs = []\<rparr>"

text \<open>The timers created so far, in the order of their creation.\<close>

fun created_timers :: "ext_call list \<Rightarrow> timer_ref list" where
  "created_timers [] = []"
| "created_timers (TxCreate r h p i rs a # cs) = r # created_timers cs"
| "created_timers (c # cs) = created_timers cs"

subsection \<open>Vocabulary for the properties of limCreateTimers\<close>












text \<open>What a block may do to the state: it calls \<^verbatim>\<open>tx_timer_create\<close> on the timers \<open>rs\<close>
  in this order, the log only grows, and the role, \<^verbatim>\<open>maxStation\<close> and
  \<^verbatim>\<open>gLimTimersCreated\<close> stay. A block \<open>keeps\<close> when it does so on every path and
  returns only at a failure; it \<open>stops\<close> when it returns in the given
  roles; it \<open>proceeds\<close> when it falls through, having called create on \<open>rs\<close> and logged
  \<open>L\<close>.\<close>

definition step_rel :: "lim_state \<Rightarrow> lim_state \<Rightarrow> timer_ref list \<Rightarrow> bool" where
  "step_rel st st' rs \<longleftrightarrow>
     created_timers (extCalls st') = created_timers (extCalls st) @ rs
     \<and> set (limLogs st) \<subseteq> set (limLogs st')
     \<and> gLimSystemRole st' = gLimSystemRole st
     \<and> maxStation st' = maxStation st
     \<and> gLimTimersCreated st' = gLimTimersCreated st"







section \<open>Properties\<close>

subsection \<open>The concrete environment and state\<close>

lemma env0_fields:
  "WLAN_SOFTAP_FEATURE env0" "WLAN_FEATURE_VOWIFI_11R env0" "WLAN_FEATURE_P2P env0"
  "SYS_TICK_DUR_MS env0 = 10" "TX_SUCCESS env0 = 0" "TX_TIMER_ERROR env0 = 0x15"
  "TX_AIRGO_TMR_SIGNATURE env0 = 0xDEADBEEF" "eSIR_SUCCESS env0 = 0"
  "LIM_HASH_MISS_TIMER_MS env0 = 10000" "LIM_ASSOC env0 = 1" "LIM_REASSOC env0 = 2"
  "sizeof_tLimPreAuthNode env0 = 64" "SIR_LIM env0 = sir_lim0"
  "indeterminate env0 = 0xA5A5A5A5" "wlan_cfgGetInt env0 = cfg0"
  "tx_timer_create env0 = ref_create 10" "tx_timer_activate env0 = ref_activate"
  "tx_timer_deactivate env0 = ref_deactivate" "tx_timer_change env0 = ref_change 10"
  "limPostMsgApi env0 = (\<lambda>posted msg. 0)"
  "palAllocateMemory env0 = (\<lambda>p size. (True, Some 0))"
  "limGetPreAuthNodeFromIndex env0 = limGetPreAuthNodeFromIndex_spec"
  by (simp_all add: env0_def)

lemma st0_fields:
  "gLimSystemRole st0 = eLIM_STA_ROLE" "limTimers st0 = (\<lambda>r. timer0)" "maxStation st0 = 4"
  "gLimPreAuthTimerTable st0 = \<lparr>numEntry = 0, pTable = None\<rparr>"
  "gLimBackgroundScanDisable st0 = False" "keepAlive st0 = 0" "gLimTimersCreated st0 = 0"
  "gLimAddtsRspTimerCount st0 = 0"
  "gLimSpecMgmt st0
     = \<lparr>quietState = eLIM_QUIET_INIT, quietDuration = 0, quietTimeoutValue = 0\<rparr>"
  "gLimTriggerBackgroundScanDuringQuietBss st0 = False" "gpLimMlmScanReq st0 = None"
  "switchTimeoutValue st0 = 0" "limLogs st0 = []" "extCalls st0 = []" "postedMsgs st0 = []"
  by (simp_all add: st0_def)

subsection \<open>What the wrappers do to the record of external calls\<close>

lemma extCalls_limLog [simp]: "extCalls (limLog lvl msg st) = extCalls st"
  by (simp add: limLog_def)

lemma limTimers_limLog [simp]: "limTimers (limLog lvl msg st) = limTimers st"
  by (simp add: limLog_def)

lemma extCalls_deactivate_or_log:
  "extCalls (deactivate_or_log e r lvl msg st) = extCalls st @ [TxDeactivate r]"
  by (simp add: deactivate_or_log_def call_deactivate_def Let_def)

lemma extCalls_change_or_log:
  "extCalls (change_or_log e r i rs lvl msg st) = extCalls st @ [TxChange r i rs]"
  by (simp add: change_or_log_def call_change_def Let_def)

lemma gLimSpecMgmt_deactivate_or_log:
  "gLimSpecMgmt (deactivate_or_log e r lvl msg st) = gLimSpecMgmt st"
  by (simp add: deactivate_or_log_def call_deactivate_def Let_def limLog_def)

lemma fst_cfg_or_log:
  "fst (cfg_or_log e key lvl msg val st) =
     (case wlan_cfgGetInt e key of Some v \<Rightarrow> v | None \<Rightarrow> val)"
  by (simp add: cfg_or_log_def split: option.splits)

lemma extCalls_cfg_or_log:
  "extCalls (snd (cfg_or_log e key lvl msg val st)) = extCalls st"
  by (simp add: cfg_or_log_def split: option.splits)

lemma extCalls_limHeartBeatDeactivateAndChangeTimer:
  "extCalls (limHeartBeatDeactivateAndChangeTimer e s st) =
     extCalls st @
       [TxDeactivate gLimHeartBeatTimer,
        TxChange gLimHeartBeatTimer
          (SYS_MS_TO_TICKS e
             (ucast (beaconInterval s) *
              (case wlan_cfgGetInt e WNI_CFG_HEART_BEAT_THRESHOLD of
                 Some v \<Rightarrow> v | None \<Rightarrow> indeterminate e))) 0]"
  by (simp add: limHeartBeatDeactivateAndChangeTimer_def Let_def case_prod_beta
        extCalls_deactivate_or_log extCalls_change_or_log extCalls_cfg_or_log fst_cfg_or_log)


lemma deactivate_or_log_frame:
  "gLimSystemRole (deactivate_or_log e r lvl msg st) = gLimSystemRole st"
  "gLimTriggerBackgroundScanDuringQuietBss (deactivate_or_log e r lvl msg st)
     = gLimTriggerBackgroundScanDuringQuietBss st"
  "gpLimMlmScanReq (deactivate_or_log e r lvl msg st) = gpLimMlmScanReq st"
  "keepAlive (deactivate_or_log e r lvl msg st) = keepAlive st"
  "gLimBackgroundScanDisable (deactivate_or_log e r lvl msg st) = gLimBackgroundScanDisable st"
  "maxStation (deactivate_or_log e r lvl msg st) = maxStation st"
  by (simp_all add: deactivate_or_log_def call_deactivate_def Let_def limLog_def)










lemma mul_ticks:
  fixes a b t :: "32 word"
  assumes "unat a * unat b < 2 ^ 32"
  shows "unat ((a * b) div t) = (unat a * unat b) div unat t"
proof -
  have "unat (a * b) = unat a * unat b"
    using assms by (simp add: unat_word_ariths)
  then show ?thesis by (simp add: unat_div)
qed



lemma limTimers_deactivate_or_log:
  "limTimers (deactivate_or_log e r lvl msg st)
     = (limTimers st)(r := snd (tx_timer_deactivate e r (limTimers st r)))"
  by (simp add: deactivate_or_log_def call_deactivate_def Let_def)





subsection \<open>The quiet timers\<close>

text \<open>
  C1 (as amended). Reconfiguring the QuietBssEnforce timer (\<^verbatim>\<open>eLIM_QUIET_BSS_TIMER\<close>)
  deactivates it and passes \<^verbatim>\<open>gLimSpecMgmt.quietDuration\<close> to \<^verbatim>\<open>tx_timer_change\<close> as it is
  stored, with reload 0. Reconfiguring the QuietBegin timer (\<^verbatim>\<open>eLIM_QUIET_TIMER\<close>)
  deactivates it and passes \<^verbatim>\<open>SYS_MS_TO_TICKS(gLimSpecMgmt.quietTimeoutValue)\<close>: the stored
  value is converted from milliseconds to ticks, not used as it is.
\<close>

theorem quiet_timers_change_values:
  "extCalls (limDeactivateAndChangeTimer e eLIM_QUIET_BSS_TIMER st) =
     extCalls st @ [TxDeactivate gLimQuietBssTimer,
                    TxChange gLimQuietBssTimer (quietDuration (gLimSpecMgmt st)) 0]
   \<and> extCalls (limDeactivateAndChangeTimer e eLIM_QUIET_TIMER st) =
     extCalls st @ [TxDeactivate gLimQuietTimer,
                    TxChange gLimQuietTimer
                      (SYS_MS_TO_TICKS e (quietTimeoutValue (gLimSpecMgmt st))) 0]"
  by (simp add: limDeactivateAndChangeTimer.simps Let_def extCalls_deactivate_or_log
        extCalls_change_or_log gLimSpecMgmt_deactivate_or_log)


text \<open>
  C1 as stated fails for the QuietBegin timer: with a tick of 10 ms and a stored
  \<^verbatim>\<open>quietTimeoutValue\<close> of 1000, the duration passed to \<^verbatim>\<open>tx_timer_change\<close> is 100.
\<close>

theorem quiet_timer_converted_counterexample:
  "extCalls (limDeactivateAndChangeTimer env0 eLIM_QUIET_TIMER
      (st0\<lparr>gLimSpecMgmt := \<lparr>quietState = eLIM_QUIET_BEGIN, quietDuration = 50,
                              quietTimeoutValue = 1000\<rparr>\<rparr>))
     = [TxDeactivate gLimQuietTimer, TxChange gLimQuietTimer 100 0]
   \<and> quietTimeoutValue (gLimSpecMgmt
        (st0\<lparr>gLimSpecMgmt := \<lparr>quietState = eLIM_QUIET_BEGIN, quietDuration = 50,
                                quietTimeoutValue = 1000\<rparr>\<rparr>)) = 1000"
  by (simp add: limDeactivateAndChangeTimer.simps Let_def extCalls_deactivate_or_log
        extCalls_change_or_log gLimSpecMgmt_deactivate_or_log SYS_MS_TO_TICKS_def
        env0_def st0_def)

subsection \<open>Activating the heartbeat timer\<close>

text \<open>
  C9. \<^verbatim>\<open>limActivateHearBeatTimer\<close> calls \<^verbatim>\<open>tx_timer_activate\<close> on the heartbeat timer, and
  returns its status, only when the timer's signature is \<^verbatim>\<open>TX_AIRGO_TMR_SIGNATURE\<close> and its
  \<^verbatim>\<open>initScheduleTimeInMsecs\<close> is not zero. With a valid signature and a zero time it changes
  nothing and returns \<^verbatim>\<open>TX_SUCCESS\<close>; with an invalid signature it changes nothing and
  returns \<^verbatim>\<open>TX_TIMER_ERROR\<close>. In \<^verbatim>\<open>limReactivateHeartBeatTimer\<close> the same guard on the time
  the timer holds after the change prevents the activation: the function then does no more
  than \<^verbatim>\<open>limHeartBeatDeactivateAndChangeTimer\<close>.
\<close>

theorem limActivateHearBeatTimer_guards:
  fixes e st
  defines "t \<equiv> limTimers st gLimHeartBeatTimer"
  shows "(tmrSignature t = TX_AIRGO_TMR_SIGNATURE e \<and> initScheduleTimeInMsecs t \<noteq> 0 \<longrightarrow>
            fst (limActivateHearBeatTimer e st) = fst (tx_timer_activate e gLimHeartBeatTimer t)
          \<and> extCalls (snd (limActivateHearBeatTimer e st))
              = extCalls st @ [TxActivate gLimHeartBeatTimer])
       \<and> (tmrSignature t = TX_AIRGO_TMR_SIGNATURE e \<and> initScheduleTimeInMsecs t = 0 \<longrightarrow>
            limActivateHearBeatTimer e st = (TX_SUCCESS e, st))
       \<and> (tmrSignature t \<noteq> TX_AIRGO_TMR_SIGNATURE e \<longrightarrow>
            limActivateHearBeatTimer e st = (TX_TIMER_ERROR e, st))
       \<and> (initScheduleTimeInMsecs
             (limTimers (limHeartBeatDeactivateAndChangeTimer e s st) gLimHeartBeatTimer) = 0 \<longrightarrow>
            limReactivateHeartBeatTimer e s st = limHeartBeatDeactivateAndChangeTimer e s st
          \<and> TxActivate gLimHeartBeatTimer
              \<notin> set (drop (length (extCalls st)) (extCalls (limReactivateHeartBeatTimer e s st))))"
proof -
  have a: "tmrSignature t = TX_AIRGO_TMR_SIGNATURE e \<and> initScheduleTimeInMsecs t \<noteq> 0 \<longrightarrow>
            fst (limActivateHearBeatTimer e st) = fst (tx_timer_activate e gLimHeartBeatTimer t)
          \<and> extCalls (snd (limActivateHearBeatTimer e st))
              = extCalls st @ [TxActivate gLimHeartBeatTimer]"
    by (simp add: limActivateHearBeatTimer_def t_def call_activate_def Let_def)
  have b: "tmrSignature t = TX_AIRGO_TMR_SIGNATURE e \<and> initScheduleTimeInMsecs t = 0 \<longrightarrow>
            limActivateHearBeatTimer e st = (TX_SUCCESS e, st)"
    by (simp add: limActivateHearBeatTimer_def t_def)
  have c: "tmrSignature t \<noteq> TX_AIRGO_TMR_SIGNATURE e \<longrightarrow>
            limActivateHearBeatTimer e st = (TX_TIMER_ERROR e, st)"
    by (auto simp: limActivateHearBeatTimer_def t_def)
  have d: "initScheduleTimeInMsecs
             (limTimers (limHeartBeatDeactivateAndChangeTimer e s st) gLimHeartBeatTimer) = 0 \<longrightarrow>
            limReactivateHeartBeatTimer e s st = limHeartBeatDeactivateAndChangeTimer e s st
          \<and> TxActivate gLimHeartBeatTimer
              \<notin> set (drop (length (extCalls st)) (extCalls (limReactivateHeartBeatTimer e s st)))"
    by (simp add: limReactivateHeartBeatTimer_def Let_def
          extCalls_limHeartBeatDeactivateAndChangeTimer)
  from a b c d show ?thesis by blast
qed


theorem limActivateHearBeatTimer_guards_witness:
  "limActivateHearBeatTimer env0 st0 = (0x15, st0)
   \<and> limActivateHearBeatTimer env0
       (st0\<lparr>limTimers := (limTimers st0)
          (gLimHeartBeatTimer := timer0\<lparr>tmrSignature := 0xDEADBEEF\<rparr>)\<rparr>)
     = (0, st0\<lparr>limTimers := (limTimers st0)
          (gLimHeartBeatTimer := timer0\<lparr>tmrSignature := 0xDEADBEEF\<rparr>)\<rparr>)
   \<and> extCalls (snd (limActivateHearBeatTimer env0
       (st0\<lparr>limTimers := (limTimers st0)
          (gLimHeartBeatTimer := timer0\<lparr>tmrSignature := 0xDEADBEEF,
                                         initScheduleTimeInMsecs := 4000\<rparr>)\<rparr>)))
     = [TxActivate gLimHeartBeatTimer]
   \<and> limReactivateHeartBeatTimer
         (env0\<lparr>wlan_cfgGetInt := cfg0(WNI_CFG_HEART_BEAT_THRESHOLD := Some 0)\<rparr>)
         \<lparr>peSessionId = 0, beaconInterval = 100\<rparr> st0
     = limHeartBeatDeactivateAndChangeTimer
         (env0\<lparr>wlan_cfgGetInt := cfg0(WNI_CFG_HEART_BEAT_THRESHOLD := Some 0)\<rparr>)
         \<lparr>peSessionId = 0, beaconInterval = 100\<rparr> st0"
proof -
  let ?st1 = "st0\<lparr>limTimers := (limTimers st0)
          (gLimHeartBeatTimer := timer0\<lparr>tmrSignature := 0xDEADBEEF\<rparr>)\<rparr>"
  let ?st2 = "st0\<lparr>limTimers := (limTimers st0)
          (gLimHeartBeatTimer := timer0\<lparr>tmrSignature := 0xDEADBEEF,
                                         initScheduleTimeInMsecs := 4000\<rparr>)\<rparr>"
  let ?e = "env0\<lparr>wlan_cfgGetInt := cfg0(WNI_CFG_HEART_BEAT_THRESHOLD := Some 0)\<rparr>"
  let ?s = "\<lparr>peSessionId = 0, beaconInterval = 100\<rparr>"
  have "tmrSignature (limTimers st0 gLimHeartBeatTimer) \<noteq> TX_AIRGO_TMR_SIGNATURE env0"
    by (simp add: env0_def st0_def timer0_def)
  with limActivateHearBeatTimer_guards [where e = env0 and st = st0]
  have "limActivateHearBeatTimer env0 st0 = (TX_TIMER_ERROR env0, st0)" by blast
  then have a: "limActivateHearBeatTimer env0 st0 = (0x15, st0)" by (simp add: env0_def)
  have "tmrSignature (limTimers ?st1 gLimHeartBeatTimer) = TX_AIRGO_TMR_SIGNATURE env0
        \<and> initScheduleTimeInMsecs (limTimers ?st1 gLimHeartBeatTimer) = 0"
    by (simp add: env0_def st0_def timer0_def)
  with limActivateHearBeatTimer_guards [where e = env0 and st = ?st1]
  have "limActivateHearBeatTimer env0 ?st1 = (TX_SUCCESS env0, ?st1)" by blast
  then have b: "limActivateHearBeatTimer env0 ?st1 = (0, ?st1)" by (simp add: env0_def)
  have "tmrSignature (limTimers ?st2 gLimHeartBeatTimer) = TX_AIRGO_TMR_SIGNATURE env0
        \<and> initScheduleTimeInMsecs (limTimers ?st2 gLimHeartBeatTimer) \<noteq> 0"
    by (simp add: env0_def st0_def timer0_def)
  with limActivateHearBeatTimer_guards [where e = env0 and st = ?st2]
  have "extCalls (snd (limActivateHearBeatTimer env0 ?st2))
          = extCalls ?st2 @ [TxActivate gLimHeartBeatTimer]" by blast
  then have c: "extCalls (snd (limActivateHearBeatTimer env0 ?st2))
          = [TxActivate gLimHeartBeatTimer]" by (simp add: st0_def)
  have "initScheduleTimeInMsecs
          (limTimers (limHeartBeatDeactivateAndChangeTimer ?e ?s st0) gLimHeartBeatTimer) = 0"
    by (simp add: limHeartBeatDeactivateAndChangeTimer_def Let_def deactivate_or_log_def
          change_or_log_def cfg_or_log_def call_deactivate_def call_change_def
          SYS_MS_TO_TICKS_def env0_def st0_def timer0_def ref_deactivate_def ref_change_def)
  with limActivateHearBeatTimer_guards [where e = ?e and st = st0 and s = ?s]
  have d: "limReactivateHeartBeatTimer ?e ?s st0 = limHeartBeatDeactivateAndChangeTimer ?e ?s st0"
    by blast
  from a b c d show ?thesis by blast
qed


subsection \<open>The keep-alive timer\<close>




subsection \<open>The heartbeat timer's duration\<close>

text \<open>
  C6. Every reconfiguration of the heartbeat timer passes, as the new duration, the beacon
  interval times the heartbeat threshold, converted to ticks, with reload 0. Both factors are
  read during the call: \<^verbatim>\<open>limDeactivateAndChangeTimer\<close> reads both from the configuration,
  \<^verbatim>\<open>limHeartBeatDeactivateAndChangeTimer\<close> takes the interval from the session and the
  threshold from the configuration. Nothing of the state the call starts from enters the
  result, so values that changed since the timer was created are the ones used. The product
  is a 32-bit one; short of overflow it is the product of the numbers.
\<close>

theorem heartbeat_duration_recomputed:
  "(wlan_cfgGetInt e WNI_CFG_BEACON_INTERVAL = Some bi
      \<and> wlan_cfgGetInt e WNI_CFG_HEART_BEAT_THRESHOLD = Some thr \<longrightarrow>
        extCalls (limDeactivateAndChangeTimer e eLIM_HEART_BEAT_TIMER st) =
          extCalls st @ [TxDeactivate gLimHeartBeatTimer,
                         TxChange gLimHeartBeatTimer (SYS_MS_TO_TICKS e (bi * thr)) 0])
   \<and> (wlan_cfgGetInt e WNI_CFG_HEART_BEAT_THRESHOLD = Some thr \<longrightarrow>
        extCalls (limHeartBeatDeactivateAndChangeTimer e s st) =
          extCalls st @ [TxDeactivate gLimHeartBeatTimer,
                         TxChange gLimHeartBeatTimer
                           (SYS_MS_TO_TICKS e (ucast (beaconInterval s) * thr)) 0])
   \<and> (unat a * unat thr < 2 ^ 32 \<longrightarrow>
        unat (SYS_MS_TO_TICKS e (a * thr)) = (unat a * unat thr) div unat (SYS_TICK_DUR_MS e))"
proof -
  have a: "wlan_cfgGetInt e WNI_CFG_BEACON_INTERVAL = Some bi
      \<and> wlan_cfgGetInt e WNI_CFG_HEART_BEAT_THRESHOLD = Some thr \<longrightarrow>
        extCalls (limDeactivateAndChangeTimer e eLIM_HEART_BEAT_TIMER st) =
          extCalls st @ [TxDeactivate gLimHeartBeatTimer,
                         TxChange gLimHeartBeatTimer (SYS_MS_TO_TICKS e (bi * thr)) 0]"
    by (simp add: limDeactivateAndChangeTimer.simps Let_def case_prod_beta fst_cfg_or_log
          extCalls_cfg_or_log extCalls_deactivate_or_log extCalls_change_or_log)
  have b: "wlan_cfgGetInt e WNI_CFG_HEART_BEAT_THRESHOLD = Some thr \<longrightarrow>
        extCalls (limHeartBeatDeactivateAndChangeTimer e s st) =
          extCalls st @ [TxDeactivate gLimHeartBeatTimer,
                         TxChange gLimHeartBeatTimer
                           (SYS_MS_TO_TICKS e (ucast (beaconInterval s) * thr)) 0]"
    by (simp add: extCalls_limHeartBeatDeactivateAndChangeTimer)
  have c: "unat a * unat thr < 2 ^ 32 \<longrightarrow>
        unat (SYS_MS_TO_TICKS e (a * thr)) = (unat a * unat thr) div unat (SYS_TICK_DUR_MS e)"
    using mul_ticks [of a thr "SYS_TICK_DUR_MS e"] by (simp add: SYS_MS_TO_TICKS_def)
  from a b c show ?thesis by blast
qed

theorem heartbeat_duration_recomputed_witness:
  "extCalls (limDeactivateAndChangeTimer env0 eLIM_HEART_BEAT_TIMER st0)
     = [TxDeactivate gLimHeartBeatTimer, TxChange gLimHeartBeatTimer 400 0]
   \<and> extCalls (limDeactivateAndChangeTimer
       (env0\<lparr>wlan_cfgGetInt := cfg0(WNI_CFG_BEACON_INTERVAL := Some 200,
                                     WNI_CFG_HEART_BEAT_THRESHOLD := Some 3)\<rparr>)
       eLIM_HEART_BEAT_TIMER (limDeactivateAndChangeTimer env0 eLIM_HEART_BEAT_TIMER st0))
     = [TxDeactivate gLimHeartBeatTimer, TxChange gLimHeartBeatTimer 400 0,
        TxDeactivate gLimHeartBeatTimer, TxChange gLimHeartBeatTimer 60 0]
   \<and> extCalls (limHeartBeatDeactivateAndChangeTimer env0
                 \<lparr>peSessionId = 0, beaconInterval = 150\<rparr> st0)
     = [TxDeactivate gLimHeartBeatTimer, TxChange gLimHeartBeatTimer 600 0]
   \<and> unat (SYS_MS_TO_TICKS env0 (100 * 40)) = (100 * 40) div 10"
proof -
  let ?e = "env0\<lparr>wlan_cfgGetInt := cfg0(WNI_CFG_BEACON_INTERVAL := Some 200,
                                     WNI_CFG_HEART_BEAT_THRESHOLD := Some 3)\<rparr>"
  let ?st1 = "limDeactivateAndChangeTimer env0 eLIM_HEART_BEAT_TIMER st0"
  have h0: "wlan_cfgGetInt env0 WNI_CFG_BEACON_INTERVAL = Some 100
            \<and> wlan_cfgGetInt env0 WNI_CFG_HEART_BEAT_THRESHOLD = Some 40"
    by (simp add: env0_fields)
  have h1: "wlan_cfgGetInt ?e WNI_CFG_BEACON_INTERVAL = Some 200
            \<and> wlan_cfgGetInt ?e WNI_CFG_HEART_BEAT_THRESHOLD = Some 3"
    by simp
  have h2: "unat (100 :: 32 word) * unat (40 :: 32 word) < 2 ^ 32"
    by simp
  from heartbeat_duration_recomputed
         [of env0 100 40 st0 "\<lparr>peSessionId = 0, beaconInterval = 150\<rparr>" 100] h0 h2
  have a: "extCalls ?st1 = [TxDeactivate gLimHeartBeatTimer, TxChange gLimHeartBeatTimer 400 0]"
    and c: "extCalls (limHeartBeatDeactivateAndChangeTimer env0
                 \<lparr>peSessionId = 0, beaconInterval = 150\<rparr> st0)
     = [TxDeactivate gLimHeartBeatTimer, TxChange gLimHeartBeatTimer 600 0]"
    and d: "unat (SYS_MS_TO_TICKS env0 (100 * 40)) = (100 * 40) div 10"
    by (simp_all add: SYS_MS_TO_TICKS_def env0_fields st0_fields)
  from heartbeat_duration_recomputed [of ?e 200 3 ?st1] h1
  have b: "extCalls (limDeactivateAndChangeTimer ?e eLIM_HEART_BEAT_TIMER ?st1)
     = [TxDeactivate gLimHeartBeatTimer, TxChange gLimHeartBeatTimer 400 0,
        TxDeactivate gLimHeartBeatTimer, TxChange gLimHeartBeatTimer 60 0]"
    by (simp add: a SYS_MS_TO_TICKS_def env0_fields)
  from a b c d show ?thesis by blast
qed



subsection \<open>Timers that a zero period disables but keeps running\<close>




subsection \<open>An auth-response index without a node\<close>

text \<open>
  C10. When the pre-auth table lookup gives no node for \<^verbatim>\<open>staId\<close>,
  \<^verbatim>\<open>limDeactivateAndChangePerStaIdTimer\<close> with \<^verbatim>\<open>eLIM_AUTH_RSP_TIMER\<close> logs the invalid
  index and returns: no call to the time source is made, and the state is the one it started
  from but for that log entry.
\<close>

theorem auth_rsp_invalid_index_is_noop:
  assumes "limGetPreAuthNodeFromIndex e (gLimPreAuthTimerTable st) (ucast staId) = None"
  shows "\<exists>st'. limDeactivateAndChangePerStaIdTimer e eLIM_AUTH_RSP_TIMER staId st = Inr st'
           \<and> st' = st\<lparr>limLogs := limLogs st @ [(LOGP, ''Invalid Pre Auth Index passed'')]\<rparr>
           \<and> limTimers st' = limTimers st \<and> extCalls st' = extCalls st"
  using assms by (simp add: limDeactivateAndChangePerStaIdTimer_def limLog_def)

theorem auth_rsp_invalid_index_is_noop_witness:
  "limGetPreAuthNodeFromIndex env0 (gLimPreAuthTimerTable st0) (ucast (7 :: 16 word)) = None
   \<and> limDeactivateAndChangePerStaIdTimer env0 eLIM_AUTH_RSP_TIMER 7 st0
       = Inr (st0\<lparr>limLogs := [(LOGP, ''Invalid Pre Auth Index passed'')]\<rparr>)"
proof -
  have h: "limGetPreAuthNodeFromIndex env0 (gLimPreAuthTimerTable st0) (ucast (7 :: 16 word))
             = None"
    by (simp add: env0_fields st0_fields limGetPreAuthNodeFromIndex_spec_def)
  from auth_rsp_invalid_index_is_noop [OF h] h show ?thesis
    by (auto simp: st0_fields)
qed

subsection \<open>The channel dwell timers\<close>

text \<open>
  C3 (as amended). Reconfiguring the MinChannelDwell timer, and the MaxChannelDwell timer
  when the system role is not the AP role, first deactivates the timer, in every case. Then:
  if the quiet state is \<^verbatim>\<open>eLIM_QUIET_RUNNING\<close> and background scanning during quiet is
  permitted, the timer is changed to \<^verbatim>\<open>gLimSpecMgmt.quietDuration\<close>, used without
  conversion; otherwise, if a scan request is active, it is changed to the request's min
  (max) channel time converted from milliseconds to ticks; and if no scan request is
  active, \<^verbatim>\<open>tx_timer_change\<close> is not called: the duration is left alone, and the timer is
  as the deactivation left it.
\<close>

theorem channel_dwell_timers_reconfigured:
  fixes e st
  defines "quiet \<equiv> quietState (gLimSpecMgmt st) = eLIM_QUIET_RUNNING
                     \<and> gLimTriggerBackgroundScanDuringQuietBss st"
  defines "min' \<equiv> limDeactivateAndChangeTimer e eLIM_MIN_CHANNEL_TIMER st"
  defines "max' \<equiv> limDeactivateAndChangeTimer e eLIM_MAX_CHANNEL_TIMER st"
  shows "(quiet \<longrightarrow>
            extCalls min' = extCalls st @
              [TxDeactivate gLimMinChannelTimer,
               TxChange gLimMinChannelTimer (quietDuration (gLimSpecMgmt st)) 0])
       \<and> (\<not> quiet \<and> gpLimMlmScanReq st = Some req \<longrightarrow>
            extCalls min' = extCalls st @
              [TxDeactivate gLimMinChannelTimer,
               TxChange gLimMinChannelTimer (SYS_MS_TO_TICKS e (minChannelTime req)) 0])
       \<and> (\<not> quiet \<and> gpLimMlmScanReq st = None \<longrightarrow>
            extCalls min' = extCalls st @ [TxDeactivate gLimMinChannelTimer]
            \<and> limTimers min' = (limTimers st)
                (gLimMinChannelTimer :=
                   snd (tx_timer_deactivate e gLimMinChannelTimer
                          (limTimers st gLimMinChannelTimer))))
       \<and> (gLimSystemRole st \<noteq> eLIM_AP_ROLE \<and> quiet \<longrightarrow>
            extCalls max' = extCalls st @
              [TxDeactivate gLimMaxChannelTimer,
               TxChange gLimMaxChannelTimer (quietDuration (gLimSpecMgmt st)) 0])
       \<and> (gLimSystemRole st \<noteq> eLIM_AP_ROLE \<and> \<not> quiet \<and> gpLimMlmScanReq st = Some req \<longrightarrow>
            extCalls max' = extCalls st @
              [TxDeactivate gLimMaxChannelTimer,
               TxChange gLimMaxChannelTimer (SYS_MS_TO_TICKS e (maxChannelTime req)) 0])
       \<and> (gLimSystemRole st \<noteq> eLIM_AP_ROLE \<and> \<not> quiet \<and> gpLimMlmScanReq st = None \<longrightarrow>
            extCalls max' = extCalls st @ [TxDeactivate gLimMaxChannelTimer]
            \<and> limTimers max' = (limTimers st)
                (gLimMaxChannelTimer :=
                   snd (tx_timer_deactivate e gLimMaxChannelTimer
                          (limTimers st gLimMaxChannelTimer))))"
  unfolding quiet_def min'_def max'_def
  by (simp add: limDeactivateAndChangeTimer.simps Let_def extCalls_deactivate_or_log
        extCalls_change_or_log gLimSpecMgmt_deactivate_or_log deactivate_or_log_frame
        limTimers_deactivate_or_log)


theorem channel_dwell_timers_reconfigured_witness:
  "extCalls (limDeactivateAndChangeTimer env0 eLIM_MIN_CHANNEL_TIMER
      (st0\<lparr>gLimSpecMgmt := \<lparr>quietState = eLIM_QUIET_RUNNING, quietDuration = 7,
                              quietTimeoutValue = 0\<rparr>,
           gLimTriggerBackgroundScanDuringQuietBss := True,
           gpLimMlmScanReq := Some \<lparr>minChannelTime = 20, maxChannelTime = 40\<rparr>\<rparr>))
     = [TxDeactivate gLimMinChannelTimer, TxChange gLimMinChannelTimer 7 0]
   \<and> extCalls (limDeactivateAndChangeTimer env0 eLIM_MAX_CHANNEL_TIMER
      (st0\<lparr>gpLimMlmScanReq := Some \<lparr>minChannelTime = 20, maxChannelTime = 40\<rparr>\<rparr>))
     = [TxDeactivate gLimMaxChannelTimer, TxChange gLimMaxChannelTimer 4 0]
   \<and> extCalls (limDeactivateAndChangeTimer env0 eLIM_MAX_CHANNEL_TIMER st0)
     = [TxDeactivate gLimMaxChannelTimer]"
proof -
  let ?req = "\<lparr>minChannelTime = 20, maxChannelTime = 40\<rparr>"
  let ?st1 = "st0\<lparr>gLimSpecMgmt := \<lparr>quietState = eLIM_QUIET_RUNNING, quietDuration = 7,
                              quietTimeoutValue = 0\<rparr>,
           gLimTriggerBackgroundScanDuringQuietBss := True,
           gpLimMlmScanReq := Some ?req\<rparr>"
  let ?st2 = "st0\<lparr>gpLimMlmScanReq := Some ?req\<rparr>"
  from channel_dwell_timers_reconfigured [where e = env0 and st = ?st1 and req = ?req]
  have a: "extCalls (limDeactivateAndChangeTimer env0 eLIM_MIN_CHANNEL_TIMER ?st1)
     = [TxDeactivate gLimMinChannelTimer, TxChange gLimMinChannelTimer 7 0]"
    by (simp add: st0_fields)
  from channel_dwell_timers_reconfigured [where e = env0 and st = ?st2 and req = ?req]
  have b: "extCalls (limDeactivateAndChangeTimer env0 eLIM_MAX_CHANNEL_TIMER ?st2)
     = [TxDeactivate gLimMaxChannelTimer, TxChange gLimMaxChannelTimer 4 0]"
    by (simp add: st0_fields env0_fields SYS_MS_TO_TICKS_def)
  from channel_dwell_timers_reconfigured [where e = env0 and st = st0 and req = ?req]
  have c: "extCalls (limDeactivateAndChangeTimer env0 eLIM_MAX_CHANNEL_TIMER st0)
     = [TxDeactivate gLimMaxChannelTimer]"
    by (simp add: st0_fields)
  from a b c show ?thesis by blast
qed


text \<open>
  C3 as stated fails. With no scan request active the reconfiguration is not a no-op: an
  active MinChannelDwell timer has been deactivated by it. And in the AP role the
  MaxChannelDwell timer is changed to 0 whatever the scan request says.
\<close>

theorem channel_dwell_not_noop_counterexample:
  "tmrActive (limTimers
      (st0\<lparr>limTimers := (limTimers st0)(gLimMinChannelTimer := timer0\<lparr>tmrActive := True\<rparr>)\<rparr>)
      gLimMinChannelTimer)
   \<and> \<not> tmrActive (limTimers
      (limDeactivateAndChangeTimer env0 eLIM_MIN_CHANNEL_TIMER
        (st0\<lparr>limTimers := (limTimers st0)(gLimMinChannelTimer := timer0\<lparr>tmrActive := True\<rparr>)\<rparr>))
      gLimMinChannelTimer)
   \<and> extCalls (limDeactivateAndChangeTimer env0 eLIM_MIN_CHANNEL_TIMER
        (st0\<lparr>limTimers := (limTimers st0)(gLimMinChannelTimer := timer0\<lparr>tmrActive := True\<rparr>)\<rparr>))
     = [TxDeactivate gLimMinChannelTimer]
   \<and> extCalls (limDeactivateAndChangeTimer env0 eLIM_MAX_CHANNEL_TIMER
        (st0\<lparr>gLimSystemRole := eLIM_AP_ROLE,
             gpLimMlmScanReq := Some \<lparr>minChannelTime = 20, maxChannelTime = 40\<rparr>\<rparr>))
     = [TxDeactivate gLimMaxChannelTimer, TxChange gLimMaxChannelTimer 0 0]"
  by (simp add: limDeactivateAndChangeTimer.simps Let_def extCalls_deactivate_or_log
        extCalls_change_or_log gLimSpecMgmt_deactivate_or_log deactivate_or_log_frame
        limTimers_deactivate_or_log st0_fields env0_fields ref_deactivate_def timer0_def)


subsection \<open>The indices of the per-station timers\<close>







subsection \<open>The expiry handlers\<close>





subsection \<open>Failures during limCreateTimers\<close>




lemma step_rel_limLog: "step_rel st (limLog lvl msg st) []"
  by (auto simp: step_rel_def limLog_def)
























































end
